theory Spec2Isabelle
  imports Main
begin

section \<open>The credential store: server.js\<close>

text \<open>
  The Express backend keeps every account in one JSON file, \<^verbatim>\<open>data/users.json\<close>,
  which each handler reads whole (\<^verbatim>\<open>readUsers\<close>) and, when it changes something,
  writes whole (\<^verbatim>\<open>writeUsers\<close>). A handler is modelled as a function of the file, of
  the fields of the request body and of what it takes from its environment (the clock,
  the salt that bcrypt draws, the token verifier); it returns what it sends and, when
  it may write, the file it leaves behind.
\<close>

subsection \<open>Values\<close>

text \<open>
  A JSON object with string values, as a map from its keys. The profile that the
  client posts and the one stored on an account are such objects.
\<close>

type_synonym json_object = "string \<rightharpoonup> string"

text \<open>The value of \<^verbatim>\<open>new Date().toISOString()\<close> when a handler reads the clock.\<close>

type_synonym timestamp = string

text \<open>
  bcryptjs is a dependency of the server, not code of the repository. Its two
  functions the server calls are modelled by what bcrypt reads of a password and
  symbolically otherwise. A string is the list of the bytes of its UTF-8 encoding.
  bcrypt ends the password with a zero byte and feeds the key schedule of its cipher
  with 72 bytes, read from the ended password round and round: of a password of 72
  bytes or more it reads the first 72 bytes and nothing else.
\<close>

definition bcrypt_key :: "string \<Rightarrow> string" where
  "bcrypt_key s = map (\<lambda>i. (s @ [CHR 0x00]) ! (i mod Suc (length s))) [0..<72]"

text \<open>
  A hash remembers the salt it was drawn with and the 72 bytes that were read, and
  nothing else can be done with it than to compare a candidate against it: the
  comparison hashes the candidate with the salt of the hash and succeeds exactly when
  the same 72 bytes are read. \<^verbatim>\<open>bcrypt.compare(s, hash)\<close> rejects its promise
  with \<^verbatim>\<open>Illegal arguments: <typeof s>, <typeof hash>\<close> unless both arguments are
  strings; \<^verbatim>\<open>typeof null\<close> is \<^verbatim>\<open>object\<close>.
\<close>

datatype hashed = BcryptHash nat string

definition bcrypt_hash :: "string \<Rightarrow> nat \<Rightarrow> hashed" where
  "bcrypt_hash s salt = BcryptHash salt (bcrypt_key s)"

fun bcrypt_compare :: "string \<Rightarrow> hashed option \<Rightarrow> string + bool" where
  "bcrypt_compare s None = Inl ''Illegal arguments: string, object''"
| "bcrypt_compare s (Some (BcryptHash salt key)) = Inr (bcrypt_key s = key)"

text \<open>
  One element of the \<^verbatim>\<open>users\<close> array. \<^verbatim>\<open>password\<close> is the bcrypt hash, or
  \<^verbatim>\<open>null\<close> (\<open>None\<close>) on an account made by Google sign-in; \<^verbatim>\<open>googleAuth\<close> is
  written as \<^verbatim>\<open>true\<close> on those accounts and is absent (\<open>False\<close>) on the others;
  \<^verbatim>\<open>profile\<close> is \<^verbatim>\<open>null\<close> until the profile is saved.
\<close>

record account =
  email :: string
  password :: "hashed option"
  googleAuth :: bool
  createdAt :: timestamp
  profile :: "json_object option"

text \<open>What \<^verbatim>\<open>({ password, ...rest }) => rest\<close> leaves of an account.\<close>

record masked_account =
  m_email :: string
  m_googleAuth :: bool
  m_createdAt :: timestamp
  m_profile :: "json_object option"

subsection \<open>The file\<close>

text \<open>
  What \<^verbatim>\<open>JSON.parse\<close> makes of the text of the file: the text does not parse; it
  parses to an object whose \<^verbatim>\<open>users\<close> is absent or falsy; or it parses to what
  \<^verbatim>\<open>writeUsers\<close> wrote, an object holding the array of accounts.
\<close>

datatype file_text = Unparseable | NoUsers | UsersArray "account list"

text \<open>
  The file as the server finds it: the directory \<^verbatim>\<open>data\<close> is gone; the directory
  is there and the file is not; the file is there and the server is denied access to
  it; or the file is there with its text, which the server can read and replace.
\<close>

datatype users_file = NoDirectory | Missing | Unreadable | Text file_text

datatype js_error = ENOENT | EACCES | SyntaxError

fun readFileSync :: "users_file \<Rightarrow> js_error + file_text" where
  "readFileSync NoDirectory = Inl ENOENT"
| "readFileSync Missing = Inl ENOENT"
| "readFileSync Unreadable = Inl EACCES"
| "readFileSync (Text raw) = Inr raw"

text \<open>
  \<^verbatim>\<open>fs.writeFileSync\<close> makes the file when the directory is there, replaces the
  text of a file it may write, and throws otherwise.
\<close>

fun writeFileSync :: "users_file \<Rightarrow> file_text \<Rightarrow> js_error + users_file" where
  "writeFileSync NoDirectory raw = Inl ENOENT"
| "writeFileSync Missing raw = Inr (Text raw)"
| "writeFileSync Unreadable raw = Inl EACCES"
| "writeFileSync (Text old) raw = Inr (Text raw)"

text \<open>The message of an error of the file system, without the path that follows it.\<close>

fun message :: "js_error \<Rightarrow> string" where
  "message ENOENT = ''ENOENT: no such file or directory''"
| "message EACCES = ''EACCES: permission denied''"
| "message SyntaxError = ''SyntaxError''"

text \<open>\<^verbatim>\<open>JSON.parse(raw).users\<close>; \<open>None\<close> is \<^verbatim>\<open>undefined\<close> or another falsy value.\<close>

fun JSON_parse_users :: "file_text \<Rightarrow> js_error + account list option" where
  "JSON_parse_users Unparseable = Inl SyntaxError"
| "JSON_parse_users NoUsers = Inr None"
| "JSON_parse_users (UsersArray us) = Inr (Some us)"

text \<open>
  \<^verbatim>\<open>readUsers\<close>: anything thrown inside the \<^verbatim>\<open>try\<close> gives the empty array, and so
  does a falsy \<^verbatim>\<open>users\<close> (an empty array is truthy in JavaScript and is returned
  as it is).
\<close>

definition readUsers :: "users_file \<Rightarrow> account list" where
  "readUsers f =
     (case readFileSync f of
        Inl err \<Rightarrow> []
      | Inr raw \<Rightarrow>
          (case JSON_parse_users raw of
             Inl err \<Rightarrow> []
           | Inr None \<Rightarrow> []
           | Inr (Some us) \<Rightarrow> us))"

text \<open>
  \<^verbatim>\<open>writeUsers\<close> has no \<^verbatim>\<open>try\<close>: what \<^verbatim>\<open>fs.writeFileSync\<close> throws, it throws.
  The text it writes is \<^verbatim>\<open>JSON.stringify({ users }, null, 2)\<close>.
\<close>

definition writeUsers :: "users_file \<Rightarrow> account list \<Rightarrow> js_error + users_file" where
  "writeUsers f users = writeFileSync f (UsersArray users)"

text \<open>The file that holds exactly these accounts, and whether a write to a file succeeds.\<close>

abbreviation stored :: "account list \<Rightarrow> users_file" where
  "stored users \<equiv> Text (UsersArray users)"

fun writable :: "users_file \<Rightarrow> bool" where
  "writable NoDirectory = False"
| "writable Missing = True"
| "writable Unreadable = False"
| "writable (Text old) = True"

text \<open>\<^verbatim>\<open>Array.prototype.findIndex\<close>; \<open>None\<close> is the \<^verbatim>\<open>-1\<close> of JavaScript.\<close>

fun findIndex :: "('a \<Rightarrow> bool) \<Rightarrow> 'a list \<Rightarrow> nat option" where
  "findIndex P [] = None"
| "findIndex P (x # xs) = (if P x then Some 0 else map_option Suc (findIndex P xs))"

subsection \<open>Requests and responses\<close>

text \<open>
  A field of the request body is a string, or is absent or \<^verbatim>\<open>null\<close> (\<open>None\<close>).
  The handlers test their fields with \<^verbatim>\<open>!field\<close>: an absent field and the empty
  string are both falsy.
\<close>

fun falsy :: "string option \<Rightarrow> bool" where
  "falsy None = True"
| "falsy (Some s) = (s = [])"

text \<open>
  The JSON bodies the handlers send. The constant \<^verbatim>\<open>message\<close> of a success body is
  left out; an error body is its \<^verbatim>\<open>error\<close> string.
\<close>

datatype body =
    ErrorBody string
  | SignupBody string
  | LoginBody string "json_object option"
  | ProfileBody json_object
  | GoogleBody string string "json_object option"
  | UsersBody "masked_account list"

text \<open>
  A handler sends a status and a body, or its promise rejects with nothing in the
  handler to catch it: then the handler sends no response (the request is left to the
  framework, which answers nothing or its own server error).
\<close>

datatype outcome = Response nat body | Unhandled string

subsection \<open>POST /api/signup\<close>

fun signup_handler ::
  "timestamp \<Rightarrow> nat \<Rightarrow> users_file \<Rightarrow> string option \<Rightarrow> string option \<Rightarrow> outcome \<times> users_file" where
  "signup_handler now salt file (Some e) (Some p) =
     (if falsy (Some e) \<or> falsy (Some p)
      then (Response 400 (ErrorBody ''Email and password are required.''), file)
      else
        let users = readUsers file in
        (case find (\<lambda>u. email u = e) users of
           Some u \<Rightarrow> (Response 409 (ErrorBody ''An account with this email already exists.''), file)
         | None \<Rightarrow>
             let hashedPassword = bcrypt_hash p salt;
                 newUser = \<lparr>email = e, password = Some hashedPassword, googleAuth = False,
                            createdAt = now, profile = None\<rparr>
             in (case writeUsers file (users @ [newUser]) of
                   Inl err \<Rightarrow> (Unhandled (message err), file)
                 | Inr file' \<Rightarrow> (Response 201 (SignupBody e), file'))))"
| "signup_handler now salt file e p =
     (Response 400 (ErrorBody ''Email and password are required.''), file)"

subsection \<open>POST /api/login\<close>

fun login_handler :: "users_file \<Rightarrow> string option \<Rightarrow> string option \<Rightarrow> outcome" where
  "login_handler file (Some e) (Some p) =
     (if falsy (Some e) \<or> falsy (Some p)
      then Response 400 (ErrorBody ''Email and password are required.'')
      else
        (case find (\<lambda>u. email u = e) (readUsers file) of
           None \<Rightarrow> Response 404 (ErrorBody ''No account found with this email.'')
         | Some user \<Rightarrow>
             (case bcrypt_compare p (password user) of
                Inl err \<Rightarrow> Unhandled err
              | Inr passwordMatch \<Rightarrow>
                  if \<not> passwordMatch
                  then Response 401 (ErrorBody ''Incorrect password. Please try again.'')
                  else Response 200 (LoginBody (email user) (profile user)))))"
| "login_handler file e p = Response 400 (ErrorBody ''Email and password are required.'')"

subsection \<open>POST /api/profile\<close>

text \<open>
  \<^verbatim>\<open>{ ...profile, completedAt: new Date().toISOString() }\<close>: the own properties of
  the posted profile (none when it is absent), then \<^verbatim>\<open>completedAt\<close> set.
\<close>

fun spread :: "json_object option \<Rightarrow> json_object" where
  "spread None = Map.empty"
| "spread (Some props) = props"

definition stamp :: "json_object option \<Rightarrow> timestamp \<Rightarrow> json_object" where
  "stamp prof now = (spread prof)(''completedAt'' \<mapsto> now)"

text \<open>
  \<^verbatim>\<open>users[idx].profile\<close> is assigned the stamped object, the array is written, and
  the same object is the \<^verbatim>\<open>profile\<close> of the response. The handler is not
  \<^verbatim>\<open>async\<close>; what the write throws leaves it before it has sent anything.
\<close>

definition profile_handler ::
  "timestamp \<Rightarrow> users_file \<Rightarrow> string option \<Rightarrow> json_object option \<Rightarrow> outcome \<times> users_file" where
  "profile_handler now file e prof =
     (if falsy e then (Response 400 (ErrorBody ''Email is required.''), file)
      else
        let users = readUsers file in
        (case findIndex (\<lambda>u. Some (email u) = e) users of
           None \<Rightarrow> (Response 404 (ErrorBody ''User not found.''), file)
         | Some idx \<Rightarrow>
             let saved = stamp prof now;
                 users' = users[idx := (users ! idx)\<lparr>profile := Some saved\<rparr>]
             in (case writeUsers file users' of
                   Inl err \<Rightarrow> (Unhandled (message err), file)
                 | Inr file' \<Rightarrow> (Response 200 (ProfileBody saved), file'))))"

subsection \<open>POST /api/google-auth\<close>

text \<open>
  The payload of a verified token. The verifier is Google's library and is a parameter
  of the handler: \<open>None\<close> is \<^verbatim>\<open>verifyIdToken\<close> throwing. The \<^verbatim>\<open>try\<close> of the
  handler also holds the write of the new account, so a write that throws is answered
  as an invalid token is.
\<close>

record payload =
  payload_email :: string
  payload_name :: "string option"

definition google_auth_handler ::
  "(string \<Rightarrow> payload option) \<Rightarrow> timestamp \<Rightarrow> users_file \<Rightarrow> string option \<Rightarrow> outcome \<times> users_file" where
  "google_auth_handler verifyIdToken now file credential =
     (case credential of
        None \<Rightarrow> (Response 400 (ErrorBody ''Google credential is required.''), file)
      | Some tok \<Rightarrow>
          if falsy (Some tok) then (Response 400 (ErrorBody ''Google credential is required.''), file)
          else
            (case verifyIdToken tok of
               None \<Rightarrow> (Response 401 (ErrorBody ''Invalid Google token. Please try again.''), file)
             | Some pl \<Rightarrow>
                 let e = payload_email pl;
                     name = (case payload_name pl of None \<Rightarrow> [] | Some n \<Rightarrow> n);
                     users = readUsers file
                 in (case find (\<lambda>u. email u = e) users of
                       Some user \<Rightarrow> (Response 200 (GoogleBody (email user) name (profile user)), file)
                     | None \<Rightarrow>
                         let user = \<lparr>email = e, password = None, googleAuth = True,
                                     createdAt = now, profile = None\<rparr>
                         in (case writeUsers file (users @ [user]) of
                               Inl err \<Rightarrow>
                                 (Response 401 (ErrorBody ''Invalid Google token. Please try again.''), file)
                             | Inr file' \<Rightarrow>
                                 (Response 200 (GoogleBody (email user) name (profile user)), file')))))"

subsection \<open>GET /api/users\<close>

definition mask :: "account \<Rightarrow> masked_account" where
  "mask u = \<lparr>m_email = email u, m_googleAuth = googleAuth u,
             m_createdAt = createdAt u, m_profile = profile u\<rparr>"

definition users_handler :: "users_file \<Rightarrow> outcome" where
  "users_handler file = (let users = readUsers file; safe = map mask users in Response 200 (UsersBody safe))"

subsection \<open>Reading a response\<close>

text \<open>\<^verbatim>\<open>data.profile.completedAt\<close> of a response, when it has one.\<close>

fun saved_completedAt :: "outcome \<Rightarrow> string option" where
  "saved_completedAt (Response status (ProfileBody pr)) = pr ''completedAt''"
| "saved_completedAt out = None"

text \<open>The status a handler sent; \<open>None\<close> when it sent nothing.\<close>

fun status_of :: "outcome \<Rightarrow> nat option" where
  "status_of (Response status data) = Some status"
| "status_of (Unhandled err) = None"

section \<open>The client: AuthContext.jsx\<close>

text \<open>
  The provider holds the React state \<^verbatim>\<open>currentUser\<close>, \<^verbatim>\<open>profile\<close> and
  \<^verbatim>\<open>loading\<close>; the logged-in email is also kept in \<^verbatim>\<open>localStorage\<close> under the key
  \<^verbatim>\<open>wqm_current\<close>, so that it outlives a reload.
\<close>

record client =
  wqm_current :: "string option"
  currentUser :: "string option"
  userProfile :: "json_object option"
  loading :: bool

text \<open>The state a page load starts from, with whatever \<^verbatim>\<open>localStorage\<close> holds.\<close>

definition initial_client :: "string option \<Rightarrow> client" where
  "initial_client saved = \<lparr>wqm_current = saved, currentUser = None, userProfile = None, loading = True\<rparr>"

text \<open>
  What \<^verbatim>\<open>fetch\<close> and \<^verbatim>\<open>res.json()\<close> give the caller: a status and a JSON body,
  or a rejected promise. A handler whose own promise rejected sends no JSON body, so the
  caller ends in its \<^verbatim>\<open>catch\<close>.
\<close>

datatype fetched = Fetched nat body | FetchFailed

fun fetch_of :: "outcome \<Rightarrow> fetched" where
  "fetch_of (Response status data) = Fetched status data"
| "fetch_of (Unhandled err) = FetchFailed"

definition ok :: "nat \<Rightarrow> bool" where
  "ok status = (200 \<le> status \<and> status \<le> 299)"

text \<open>\<^verbatim>\<open>data.error || fallback\<close>\<close>

fun error_or :: "body \<Rightarrow> string \<Rightarrow> string" where
  "error_or (ErrorBody msg) fallback = (if msg = [] then fallback else msg)"
| "error_or data fallback = fallback"

text \<open>\<^verbatim>\<open>data.profile || null\<close>, \<^verbatim>\<open>data.email\<close> and \<^verbatim>\<open>data.users || []\<close>\<close>

fun data_profile :: "body \<Rightarrow> json_object option" where
  "data_profile (LoginBody e pr) = pr"
| "data_profile (GoogleBody e name pr) = pr"
| "data_profile (ProfileBody pr) = Some pr"
| "data_profile data = None"

fun data_email :: "body \<Rightarrow> string option" where
  "data_email (SignupBody e) = Some e"
| "data_email (LoginBody e pr) = Some e"
| "data_email (GoogleBody e name pr) = Some e"
| "data_email data = None"

fun data_users :: "body \<Rightarrow> masked_account list" where
  "data_users (UsersBody us) = us"
| "data_users data = []"

subsection \<open>The operations of the context, on what fetch gave\<close>

definition cannot_connect :: string where
  "cannot_connect = ''Cannot connect to the server. Make sure the backend is running.''"

fun ctx_signup :: "fetched \<Rightarrow> string \<Rightarrow> client \<Rightarrow> string option \<times> client" where
  "ctx_signup (Fetched status data) e c =
     (if \<not> ok status then (Some (error_or data ''Signup failed. Please try again.''), c)
      else (None, c\<lparr>wqm_current := Some e, currentUser := Some e, userProfile := None\<rparr>))"
| "ctx_signup FetchFailed e c = (Some cannot_connect, c)"

fun ctx_login :: "fetched \<Rightarrow> string \<Rightarrow> client \<Rightarrow> string option \<times> client" where
  "ctx_login (Fetched status data) e c =
     (if \<not> ok status then (Some (error_or data ''Login failed. Please try again.''), c)
      else (None, c\<lparr>wqm_current := Some e, currentUser := Some e, userProfile := data_profile data\<rparr>))"
| "ctx_login FetchFailed e c = (Some cannot_connect, c)"

definition logout :: "client \<Rightarrow> client" where
  "logout c = c\<lparr>wqm_current := None, currentUser := None, userProfile := None\<rparr>"

fun ctx_saveProfile :: "fetched \<Rightarrow> client \<Rightarrow> client" where
  "ctx_saveProfile (Fetched status data) c =
     (if ok status then c\<lparr>userProfile := data_profile data\<rparr> else c)"
| "ctx_saveProfile FetchFailed c = c"

text \<open>
  \<^verbatim>\<open>localStorage.setItem\<close> stores the string of its argument, so an absent
  \<^verbatim>\<open>data.email\<close> is stored as the text \<^verbatim>\<open>undefined\<close>.
\<close>

fun ctx_googleLogin :: "fetched \<Rightarrow> client \<Rightarrow> string option \<times> client" where
  "ctx_googleLogin (Fetched status data) c =
     (if \<not> ok status then (Some (error_or data ''Google sign-in failed.''), c)
      else (None, c\<lparr>wqm_current := (case data_email data of None \<Rightarrow> Some ''undefined'' | Some e \<Rightarrow> Some e),
                     currentUser := data_email data,
                     userProfile := data_profile data\<rparr>))"
| "ctx_googleLogin FetchFailed c = (Some cannot_connect, c)"

text \<open>
  The effect that runs once when the provider mounts. \<^verbatim>\<open>currentUser\<close> is set from
  the saved email before anything is fetched; the fetched list only decides the
  profile (\<^verbatim>\<open>user?.profile || null\<close>), and a failed fetch is ignored.
\<close>

definition restore_profile :: "masked_account list \<Rightarrow> string \<Rightarrow> json_object option" where
  "restore_profile users savedEmail =
     (case find (\<lambda>u. m_email u = savedEmail) users of None \<Rightarrow> None | Some user \<Rightarrow> m_profile user)"

definition restoreSession :: "fetched \<Rightarrow> client \<Rightarrow> client" where
  "restoreSession r c =
     (case wqm_current c of
        None \<Rightarrow> c\<lparr>loading := False\<rparr>
      | Some savedEmail \<Rightarrow>
          if falsy (Some savedEmail) then c\<lparr>loading := False\<rparr>
          else
            (case r of
               Fetched status data \<Rightarrow>
                 c\<lparr>currentUser := Some savedEmail,
                   userProfile := restore_profile (data_users data) savedEmail,
                   loading := False\<rparr>
             | FetchFailed \<Rightarrow> c\<lparr>currentUser := Some savedEmail, loading := False\<rparr>))"

subsection \<open>The operations against the server\<close>

text \<open>
  Each operation posts its JSON body to its endpoint and hands the response to the
  context; the state of the whole system is the client and the file of the server.
\<close>

definition signup ::
  "timestamp \<Rightarrow> nat \<Rightarrow> string \<Rightarrow> string \<Rightarrow> client \<times> users_file \<Rightarrow> string option \<times> client \<times> users_file" where
  "signup now salt e p s =
     (case s of (c, file) \<Rightarrow>
        (case signup_handler now salt file (Some e) (Some p) of (out, file') \<Rightarrow>
           (case ctx_signup (fetch_of out) e c of (err, c') \<Rightarrow> (err, c', file'))))"

definition login ::
  "string \<Rightarrow> string \<Rightarrow> client \<times> users_file \<Rightarrow> string option \<times> client \<times> users_file" where
  "login e p s =
     (case s of (c, file) \<Rightarrow>
        (case ctx_login (fetch_of (login_handler file (Some e) (Some p))) e c of
           (err, c') \<Rightarrow> (err, c', file)))"

definition saveProfile ::
  "timestamp \<Rightarrow> json_object \<Rightarrow> client \<times> users_file \<Rightarrow> client \<times> users_file" where
  "saveProfile now profileData s =
     (case s of (c, file) \<Rightarrow>
        (case profile_handler now file (currentUser c) (Some profileData) of (out, file') \<Rightarrow>
           (ctx_saveProfile (fetch_of out) c, file')))"

definition googleLogin ::
  "(string \<Rightarrow> payload option) \<Rightarrow> timestamp \<Rightarrow> string \<Rightarrow> client \<times> users_file \<Rightarrow>
     string option \<times> client \<times> users_file" where
  "googleLogin verifyIdToken now credential s =
     (case s of (c, file) \<Rightarrow>
        (case google_auth_handler verifyIdToken now file (Some credential) of (out, file') \<Rightarrow>
           (case ctx_googleLogin (fetch_of out) c of (err, c') \<Rightarrow> (err, c', file'))))"

definition restore :: "string option \<Rightarrow> users_file \<Rightarrow> client" where
  "restore saved file = restoreSession (fetch_of (users_handler file)) (initial_client saved)"

section \<open>The route guard: App.jsx, AuthPage.jsx, ProfileSetupPage.jsx, ProtectedRoute.jsx\<close>

text \<open>
  The three routes of the application. Each page component either renders its content
  or returns \<^verbatim>\<open><Navigate to=... replace />\<close>. The components read \<^verbatim>\<open>currentUser\<close>
  by its truthiness and \<^verbatim>\<open>isProfileComplete\<close>, which the context computes as
  \<^verbatim>\<open>!!profile\<close>.
\<close>

datatype page = LoginPage | SetupPage | DashboardPage

datatype decision = Allow | Redirect page

definition isProfileComplete :: "client \<Rightarrow> bool" where
  "isProfileComplete c = (userProfile c \<noteq> None)"

definition AuthPage :: "client \<Rightarrow> decision" where
  "AuthPage c =
     (if \<not> falsy (currentUser c)
      then Redirect (if isProfileComplete c then DashboardPage else SetupPage)
      else Allow)"

definition ProfileSetupPage :: "client \<Rightarrow> decision" where
  "ProfileSetupPage c =
     (if falsy (currentUser c) then Redirect LoginPage
      else if isProfileComplete c then Redirect DashboardPage
      else Allow)"

definition ProtectedRoute :: "client \<Rightarrow> decision" where
  "ProtectedRoute c =
     (if falsy (currentUser c) then Redirect LoginPage
      else if \<not> isProfileComplete c then Redirect SetupPage
      else Allow)"

text \<open>The route map of \<^verbatim>\<open>App\<close>: the dashboard is the one page wrapped in \<^verbatim>\<open>ProtectedRoute\<close>.\<close>

fun route :: "page \<Rightarrow> client \<Rightarrow> decision" where
  "route LoginPage c = AuthPage c"
| "route SetupPage c = ProfileSetupPage c"
| "route DashboardPage c = ProtectedRoute c"

subsection \<open>The table of the specification\<close>

text \<open>
  The three session states of the specification, and the state a client is in: the
  code takes a client for logged in exactly when \<^verbatim>\<open>currentUser\<close> is truthy.
\<close>

datatype session_state = Anonymous | Authenticated string "json_object option"

definition session_of :: "client \<Rightarrow> session_state" where
  "session_of c =
     (case currentUser c of
        None \<Rightarrow> Anonymous
      | Some e \<Rightarrow> if e = [] then Anonymous else Authenticated e (userProfile c))"

text \<open>The decision table of section 4.4, row by row.\<close>

fun guard_table :: "session_state \<Rightarrow> page \<Rightarrow> decision" where
  "guard_table Anonymous LoginPage = Allow"
| "guard_table Anonymous SetupPage = Redirect LoginPage"
| "guard_table Anonymous DashboardPage = Redirect LoginPage"
| "guard_table (Authenticated e None) LoginPage = Redirect SetupPage"
| "guard_table (Authenticated e None) SetupPage = Allow"
| "guard_table (Authenticated e None) DashboardPage = Redirect SetupPage"
| "guard_table (Authenticated e (Some pr)) LoginPage = Redirect DashboardPage"
| "guard_table (Authenticated e (Some pr)) SetupPage = Redirect DashboardPage"
| "guard_table (Authenticated e (Some pr)) DashboardPage = Allow"

section \<open>Lemmas on the store\<close>

lemma readUsers_stored: "readUsers (stored us) = us"
  by (simp add: readUsers_def)

lemma writeUsers_writable: "writable f \<Longrightarrow> writeUsers f us = Inr (stored us)"
  by (cases f) (simp_all add: writeUsers_def)

lemma writeUsers_result: "writeUsers f us = Inr g \<Longrightarrow> g = stored us"
  by (cases f) (simp_all add: writeUsers_def)

lemma writeUsers_refused: "writeUsers f us = Inl err \<Longrightarrow> readUsers f = []"
  by (cases f) (simp_all add: writeUsers_def readUsers_def)

lemma readUsers_writable: "readUsers f \<noteq> [] \<Longrightarrow> writable f"
  by (cases f) (simp_all add: readUsers_def)

lemma findIndex_writable: "findIndex P (readUsers f) = Some i \<Longrightarrow> writable f"
  by (rule readUsers_writable) auto

lemma bcrypt_key_nth:
  "i < 72 \<Longrightarrow> bcrypt_key s ! i = (s @ [CHR 0x00]) ! (i mod Suc (length s))"
  by (simp add: bcrypt_key_def)

lemma bcrypt_key_long: "72 \<le> length s \<Longrightarrow> bcrypt_key s = take 72 s"
  by (rule nth_equalityI) (simp_all add: bcrypt_key_def nth_append)

lemma bcrypt_key_inj:
  assumes "length w \<le> 72" and "length p \<le> 72"
    and "CHR 0x00 \<notin> set w" and "CHR 0x00 \<notin> set p"
    and "bcrypt_key w = bcrypt_key p"
  shows "w = p"
proof -
  have own: "bcrypt_key s ! i = s ! i" if "i < length s" "length s \<le> 72" for s i
    using that by (simp add: bcrypt_key_nth nth_append)
  have zero: "bcrypt_key s ! length s = CHR 0x00" if "length s < 72" for s
    using that by (simp add: bcrypt_key_nth)
  have shorter: False
    if "length a < length b" "length b \<le> 72" "CHR 0x00 \<notin> set b" "bcrypt_key a = bcrypt_key b"
    for a b
  proof -
    have 1: "bcrypt_key b ! length a = b ! length a"
      using that by (simp add: own)
    have 2: "bcrypt_key a ! length a = CHR 0x00"
      using that(1,2) by (simp add: zero)
    from 1 2 that(4) have "b ! length a = CHR 0x00"
      by simp
    moreover have "b ! length a \<in> set b"
      using that by simp
    ultimately show False
      using that(3) by simp
  qed
  have len: "length w = length p"
    using shorter [of w p] shorter [of p w] assms by (metis linorder_neqE_nat)
  show ?thesis
  proof (rule nth_equalityI)
    show "length w = length p" by (rule len)
    fix i assume "i < length w"
    then show "w ! i = p ! i"
      using own [of i w] own [of i p] assms len by simp
  qed
qed

lemma find_email_None: "find (\<lambda>u. email u = e) us = None \<longleftrightarrow> e \<notin> set (map email us)"
  by (induction us) auto

lemma find_append_new:
  "find (\<lambda>u. email u = e) us = None \<Longrightarrow> email v = e \<Longrightarrow> find (\<lambda>u. email u = e) (us @ [v]) = Some v"
  by (induction us) auto

lemma find_mask:
  "find (\<lambda>u. m_email u = e) (map mask us) = map_option mask (find (\<lambda>u. email u = e) us)"
  by (induction us) (auto simp: mask_def)

lemma findIndex_Some: "findIndex P xs = Some i \<Longrightarrow> i < length xs \<and> P (xs ! i)"
  by (induction xs arbitrary: i) (auto split: if_splits)

lemma findIndex_update_same:
  "findIndex (\<lambda>u. Some (email u) = e) us = Some i \<Longrightarrow>
   findIndex (\<lambda>u. Some (email u) = e) (us[i := (us ! i)\<lparr>profile := pr\<rparr>]) = Some i"
proof (induction us arbitrary: i)
  case Nil
  then show ?case by simp
next
  case (Cons a us)
  then show ?case by (cases i) (auto split: if_splits)
qed

lemma stamp_completedAt: "stamp prof now ''completedAt'' = Some now"
  by (simp add: stamp_def)

lemma stamp_other: "k \<noteq> ''completedAt'' \<Longrightarrow> stamp prof now k = spread prof k"
  by (simp add: stamp_def)

lemma profile_handler_found:
  "findIndex (\<lambda>u. Some (email u) = Some e) (readUsers file) = Some i \<Longrightarrow> e \<noteq> [] \<Longrightarrow>
   profile_handler now file (Some e) prof =
     (Response 200 (ProfileBody (stamp prof now)),
      stored ((readUsers file)[i := (readUsers file ! i)\<lparr>profile := Some (stamp prof now)\<rparr>]))"
  using findIndex_writable [of "\<lambda>u. Some (email u) = Some e" "file" i]
  by (simp add: profile_handler_def Let_def writeUsers_writable)

lemma signup_keeps_emails_distinct:
  "distinct (map email (readUsers f)) \<Longrightarrow>
   distinct (map email (readUsers (snd (signup_handler now salt f em pw))))"
  by (cases em; cases pw)
     (auto simp: Let_def find_email_None readUsers_stored
        dest!: writeUsers_result split: option.splits sum.splits)

section \<open>The route guard\<close>

text \<open>
  The server refuses an empty email before it answers a signup or a login, and the
  restore effect skips an empty marker: these operations never make the empty string
  the current user, so a client they leave with a \<^verbatim>\<open>currentUser\<close> is one the pages
  take for logged in.
\<close>

lemma currentUser_never_empty:
  assumes "currentUser c \<noteq> Some []"
  shows "currentUser (fst (snd (signup now salt e p (c, file)))) \<noteq> Some []"
    and "currentUser (fst (snd (login e p (c, file)))) \<noteq> Some []"
    and "currentUser (logout c) \<noteq> Some []"
    and "currentUser (fst (saveProfile now profileData (c, file))) \<noteq> Some []"
    and "currentUser (restore saved file) \<noteq> Some []"
proof -
  show "currentUser (fst (snd (signup now salt e p (c, file)))) \<noteq> Some []"
    using assms
    by (cases "e = []"; cases "p = []")
       (auto simp: signup_def ok_def Let_def split: option.splits prod.splits sum.splits)
  show "currentUser (fst (snd (login e p (c, file)))) \<noteq> Some []"
    using assms
    by (cases "e = []"; cases "p = []")
       (auto simp: login_def ok_def split: option.splits sum.splits)
  show "currentUser (logout c) \<noteq> Some []"
    by (simp add: logout_def)
  show "currentUser (fst (saveProfile now profileData (c, file))) \<noteq> Some []"
    using assms
    by (cases "fst (profile_handler now file (currentUser c) (Some profileData))")
       (auto simp: saveProfile_def split: prod.splits if_splits)
  show "currentUser (restore saved file) \<noteq> Some []"
    by (cases saved)
       (auto simp: restore_def restoreSession_def initial_client_def users_handler_def)
qed

text \<open>
  C1. For every client state and every requested page, the page component that the
  route map mounts decides as the table of section 4.4 prescribes for the session
  state of that client: all nine combinations of the three session states and the
  three pages.
\<close>

theorem route_guard_table: "route pg c = guard_table (session_of c) pg"
  by (cases pg; cases "currentUser c"; cases "userProfile c")
     (simp_all add: session_of_def AuthPage_def ProfileSetupPage_def ProtectedRoute_def
        isProfileComplete_def)

section \<open>Signup and password login\<close>

text \<open>
  C5. On a store that can be written, for every email not yet registered and every
  non-empty password, signup succeeds:
  the server answers 201 and appends the account, with the hash of the password and no
  profile, and the client becomes authenticated with that email and no profile. A
  login with the same email and password that follows answers 200 with no profile and
  leaves the client authenticated without a profile. An email is a non-empty string.
\<close>

theorem signup_then_login:
  assumes "e \<noteq> []" and "p \<noteq> []" and "find (\<lambda>u. email u = e) (readUsers file) = None"
    and "writable file"
  shows "signup now salt e p (c, file) =
           (None, c\<lparr>wqm_current := Some e, currentUser := Some e, userProfile := None\<rparr>,
            stored (readUsers file @ [\<lparr>email = e, password = Some (bcrypt_hash p salt),
               googleAuth = False, createdAt = now, profile = None\<rparr>])) \<and>
         fst (signup_handler now salt file (Some e) (Some p)) = Response 201 (SignupBody e) \<and>
         session_of (fst (snd (signup now salt e p (c, file)))) = Authenticated e None \<and>
         login_handler (snd (snd (signup now salt e p (c, file)))) (Some e) (Some p)
           = Response 200 (LoginBody e None) \<and>
         fst (login e p (c', snd (snd (signup now salt e p (c, file))))) = None \<and>
         session_of (fst (snd (login e p (c', snd (snd (signup now salt e p (c, file)))))))
           = Authenticated e None"
proof -
  have s: "signup now salt e p (c, file) =
           (None, c\<lparr>wqm_current := Some e, currentUser := Some e, userProfile := None\<rparr>,
            stored (readUsers file @ [\<lparr>email = e, password = Some (bcrypt_hash p salt),
               googleAuth = False, createdAt = now, profile = None\<rparr>]))"
    using assms by (simp add: signup_def ok_def writeUsers_writable)
  have h: "fst (signup_handler now salt file (Some e) (Some p)) = Response 201 (SignupBody e)"
    using assms by (simp add: writeUsers_writable)
  have a: "session_of (fst (snd (signup now salt e p (c, file)))) = Authenticated e None"
    using assms by (simp add: s session_of_def)
  have l: "login_handler (snd (snd (signup now salt e p (c, file)))) (Some e) (Some p)
             = Response 200 (LoginBody e None)"
    using assms by (simp add: s readUsers_stored find_append_new bcrypt_hash_def)
  have n: "fst (login e p (c', snd (snd (signup now salt e p (c, file))))) = None"
    using l by (simp add: login_def ok_def)
  have b: "session_of (fst (snd (login e p (c', snd (snd (signup now salt e p (c, file)))))))
             = Authenticated e None"
    using l assms by (simp add: login_def ok_def session_of_def)
  from s h a l n b show ?thesis by blast
qed

theorem signup_then_login_witness:
  "''a@x.com'' \<noteq> [] \<and> ''secret1'' \<noteq> [] \<and>
   find (\<lambda>u. email u = ''a@x.com'') (readUsers (stored [])) = None \<and>
   writable (stored []) \<and>
   fst (signup_handler ''2026-01-01T00:00:00.000Z'' 7 (stored []) (Some ''a@x.com'') (Some ''secret1''))
     = Response 201 (SignupBody ''a@x.com'') \<and>
   session_of (fst (snd (signup ''2026-01-01T00:00:00.000Z'' 7 ''a@x.com'' ''secret1''
      (initial_client None, stored [])))) = Authenticated ''a@x.com'' None \<and>
   session_of (fst (snd (login ''a@x.com'' ''secret1'' (initial_client None,
      snd (snd (signup ''2026-01-01T00:00:00.000Z'' 7 ''a@x.com'' ''secret1''
        (initial_client None, stored []))))))) = Authenticated ''a@x.com'' None"
proof -
  have h1: "''a@x.com'' \<noteq> []" and h2: "''secret1'' \<noteq> []" by simp_all
  have h3: "find (\<lambda>u. email u = ''a@x.com'') (readUsers (stored [])) = None"
    by (simp add: readUsers_stored)
  have h4: "writable (stored [])" by simp
  from signup_then_login [OF h1 h2 h3 h4, where now = "''2026-01-01T00:00:00.000Z''" and salt = 7
      and c = "initial_client None" and c' = "initial_client None"] h1 h2 h3 h4
  show ?thesis by blast
qed

text \<open>
  C4, as the code has it. For a non-empty email with an account that holds the hash
  of a password, a login with a non-empty password answers 401 when bcrypt reads other
  bytes of it than of the password of the account, and 200 when it reads the same
  bytes. It reads other bytes of any two different passwords of at most 72 bytes
  that hold no zero byte; of two passwords of 72 bytes or more it compares the first
  72 bytes only. For a non-empty email with no account, a login with any non-empty
  password answers 404. A login with an empty password answers 400, whether the email
  is registered or not: the handler tests its fields before it reads the store.
\<close>

theorem login_failures:
  "(e \<noteq> [] \<and> w \<noteq> [] \<and> find (\<lambda>u. email u = e) (readUsers f) = Some u \<and>
      password u = Some (bcrypt_hash p salt) \<and> bcrypt_key w \<noteq> bcrypt_key p \<longrightarrow>
      login_handler f (Some e) (Some w)
        = Response 401 (ErrorBody ''Incorrect password. Please try again.'')) \<and>
   (e \<noteq> [] \<and> w \<noteq> [] \<and> find (\<lambda>u. email u = e) (readUsers f) = Some u \<and>
      password u = Some (bcrypt_hash p salt) \<and> bcrypt_key w = bcrypt_key p \<longrightarrow>
      login_handler f (Some e) (Some w) = Response 200 (LoginBody (email u) (profile u))) \<and>
   (length w \<le> 72 \<and> length p \<le> 72 \<and> CHR 0x00 \<notin> set w \<and> CHR 0x00 \<notin> set p \<and> w \<noteq> p \<longrightarrow>
      bcrypt_key w \<noteq> bcrypt_key p) \<and>
   (72 \<le> length w \<and> 72 \<le> length p \<longrightarrow>
      (bcrypt_key w = bcrypt_key p) = (take 72 w = take 72 p)) \<and>
   (e \<noteq> [] \<and> w \<noteq> [] \<and> find (\<lambda>u. email u = e) (readUsers f) = None \<longrightarrow>
      login_handler f (Some e) (Some w)
        = Response 404 (ErrorBody ''No account found with this email.'')) \<and>
   (w = [] \<longrightarrow>
      login_handler f (Some e) (Some w)
        = Response 400 (ErrorBody ''Email and password are required.''))"
proof -
  have inj: "length w \<le> 72 \<and> length p \<le> 72 \<and> CHR 0x00 \<notin> set w \<and> CHR 0x00 \<notin> set p \<and> w \<noteq> p \<longrightarrow>
      bcrypt_key w \<noteq> bcrypt_key p"
    using bcrypt_key_inj [of w p] by blast
  have long: "72 \<le> length w \<and> 72 \<le> length p \<longrightarrow>
      (bcrypt_key w = bcrypt_key p) = (take 72 w = take 72 p)"
    by (simp add: bcrypt_key_long)
  from inj long show ?thesis
    by (simp add: bcrypt_hash_def)
qed

theorem login_failures_witness:
  "login_handler (stored [\<lparr>email = ''a@x.com'', password = Some (bcrypt_hash ''secret1'' 7),
       googleAuth = False, createdAt = ''2026-01-01T00:00:00.000Z'', profile = None\<rparr>])
     (Some ''a@x.com'') (Some ''secret2'')
     = Response 401 (ErrorBody ''Incorrect password. Please try again.'') \<and>
   login_handler (stored [\<lparr>email = ''a@x.com'', password = Some (bcrypt_hash ''secret1'' 7),
       googleAuth = False, createdAt = ''2026-01-01T00:00:00.000Z'', profile = None\<rparr>])
     (Some ''a@x.com'') (Some ''secret1'')
     = Response 200 (LoginBody ''a@x.com'' None) \<and>
   login_handler (stored []) (Some ''b@x.com'') (Some ''secret2'')
     = Response 404 (ErrorBody ''No account found with this email.'') \<and>
   login_handler (stored []) (Some ''b@x.com'') (Some [])
     = Response 400 (ErrorBody ''Email and password are required.'')"
proof -
  let ?u = "\<lparr>email = ''a@x.com'', password = Some (bcrypt_hash ''secret1'' 7),
              googleAuth = False, createdAt = ''2026-01-01T00:00:00.000Z'', profile = None\<rparr>"
  note wrong = login_failures [where e = "''a@x.com''" and w = "''secret2''" and f = "stored [?u]"
        and u = ?u and p = "''secret1''" and salt = 7]
  note right = login_failures [where e = "''a@x.com''" and w = "''secret1''" and f = "stored [?u]"
        and u = ?u and p = "''secret1''" and salt = 7]
  note nobody = login_failures [where e = "''b@x.com''" and w = "''secret2''" and f = "stored []"]
  note nothing = login_failures [where e = "''b@x.com''" and w = "[]" and f = "stored []"]
  have a: "find (\<lambda>u. email u = ''a@x.com'') (readUsers (stored [?u])) = Some ?u"
    by (simp add: readUsers_stored)
  have b: "find (\<lambda>u. email u = ''b@x.com'') (readUsers (stored [])) = None"
    by (simp add: readUsers_stored)
  have pw: "password ?u = Some (bcrypt_hash ''secret1'' 7)"
    by simp
  have small: "length ''secret2'' \<le> 72 \<and> length ''secret1'' \<le> 72 \<and>
      CHR 0x00 \<notin> set ''secret2'' \<and> CHR 0x00 \<notin> set ''secret1'' \<and> ''secret2'' \<noteq> ''secret1''"
    by simp
  from wrong small have k: "bcrypt_key ''secret2'' \<noteq> bcrypt_key ''secret1''"
    by blast
  have ne: "''a@x.com'' \<noteq> [] \<and> ''secret2'' \<noteq> [] \<and> ''secret1'' \<noteq> [] \<and> ''b@x.com'' \<noteq> []"
    by simp
  have 1: "login_handler (stored [?u]) (Some ''a@x.com'') (Some ''secret2'')
     = Response 401 (ErrorBody ''Incorrect password. Please try again.'')"
    using wrong a pw k ne by blast
  have 2: "login_handler (stored [?u]) (Some ''a@x.com'') (Some ''secret1'')
     = Response 200 (LoginBody (email ?u) (profile ?u))"
    using right a pw ne by blast
  have 3: "login_handler (stored []) (Some ''b@x.com'') (Some ''secret2'')
     = Response 404 (ErrorBody ''No account found with this email.'')"
    using nobody b ne by blast
  have 4: "login_handler (stored []) (Some ''b@x.com'') (Some [])
     = Response 400 (ErrorBody ''Email and password are required.'')"
    using nothing by simp
  from 1 2 3 4 show ?thesis by simp
qed

text \<open>
  C4 as it is written fails in two places. Two different passwords that agree on
  their first 72 bytes are one password to bcrypt: against an account whose password
  is 72 times \<^verbatim>\<open>a\<close> and then \<^verbatim>\<open>X\<close>, the login with 72 times \<^verbatim>\<open>a\<close> and then
  \<^verbatim>\<open>Y\<close> answers 200, not 401. And at the empty password the answer is 400: not 404
  when the store has no account, not 401 against an account with another password.
\<close>

theorem login_wrong_password_counterexample:
  "replicate 72 CHR ''a'' @ ''Y'' \<noteq> replicate 72 CHR ''a'' @ ''X'' \<and>
   login_handler (stored [\<lparr>email = ''a@x.com'',
       password = Some (bcrypt_hash (replicate 72 CHR ''a'' @ ''X'') 7), googleAuth = False,
       createdAt = ''2026-01-01T00:00:00.000Z'', profile = None\<rparr>])
     (Some ''a@x.com'') (Some (replicate 72 CHR ''a'' @ ''Y''))
     = Response 200 (LoginBody ''a@x.com'' None) \<and>
   find (\<lambda>u. email u = ''b@x.com'') (readUsers (stored [])) = None \<and>
   login_handler (stored []) (Some ''b@x.com'') (Some [])
     = Response 400 (ErrorBody ''Email and password are required.'') \<and>
   status_of (login_handler (stored []) (Some ''b@x.com'') (Some [])) \<noteq> Some 404 \<and>
   [] \<noteq> ''secret1'' \<and>
   status_of (login_handler (stored [\<lparr>email = ''a@x.com'',
       password = Some (bcrypt_hash ''secret1'' 7), googleAuth = False,
       createdAt = ''2026-01-01T00:00:00.000Z'', profile = None\<rparr>])
     (Some ''a@x.com'') (Some [])) \<noteq> Some 401"
  by (simp add: readUsers_stored bcrypt_hash_def bcrypt_key_long)

text \<open>
  C7, as the code has it. For every non-empty registered email, a signup with any
  non-empty password answers 409 and a signup with the empty password answers 400; in
  both cases the file is left as it was, so no second account is made. Whatever the
  request, a signup keeps the emails of the store distinct.
\<close>

theorem signup_registered:
  assumes "find (\<lambda>u. email u = e) (readUsers file) = Some u" and "e \<noteq> []"
  shows "(p2 \<noteq> [] \<longrightarrow> signup_handler now salt file (Some e) (Some p2)
            = (Response 409 (ErrorBody ''An account with this email already exists.''), file)) \<and>
         (p2 = [] \<longrightarrow> signup_handler now salt file (Some e) (Some p2)
            = (Response 400 (ErrorBody ''Email and password are required.''), file)) \<and>
         snd (signup_handler now salt file (Some e) (Some p2)) = file \<and>
         (distinct (map email (readUsers file)) \<longrightarrow>
            distinct (map email (readUsers (snd (signup_handler now' salt' file em pw)))))"
  using assms signup_keeps_emails_distinct [where f = "file" and now = "now'" and salt = salt'
      and em = "em" and pw = "pw"]
  by simp

theorem signup_registered_witness:
  "find (\<lambda>u. email u = ''a@x.com'') (readUsers (stored [\<lparr>email = ''a@x.com'',
       password = Some (bcrypt_hash ''secret1'' 7), googleAuth = False,
       createdAt = ''2026-01-01T00:00:00.000Z'', profile = None\<rparr>]))
     = Some \<lparr>email = ''a@x.com'', password = Some (bcrypt_hash ''secret1'' 7),
         googleAuth = False, createdAt = ''2026-01-01T00:00:00.000Z'', profile = None\<rparr> \<and>
   ''a@x.com'' \<noteq> [] \<and> ''other'' \<noteq> [] \<and>
   signup_handler ''2026-02-02T00:00:00.000Z'' 8 (stored [\<lparr>email = ''a@x.com'',
       password = Some (bcrypt_hash ''secret1'' 7), googleAuth = False,
       createdAt = ''2026-01-01T00:00:00.000Z'', profile = None\<rparr>])
     (Some ''a@x.com'') (Some ''other'')
     = (Response 409 (ErrorBody ''An account with this email already exists.''),
        stored [\<lparr>email = ''a@x.com'', password = Some (bcrypt_hash ''secret1'' 7),
          googleAuth = False, createdAt = ''2026-01-01T00:00:00.000Z'', profile = None\<rparr>]) \<and>
   distinct (map email (readUsers (snd (signup_handler ''2026-02-02T00:00:00.000Z'' 8
     (stored [\<lparr>email = ''a@x.com'', password = Some (bcrypt_hash ''secret1'' 7),
        googleAuth = False, createdAt = ''2026-01-01T00:00:00.000Z'', profile = None\<rparr>])
     (Some ''b@x.com'') (Some ''other'')))))"
proof -
  let ?u = "\<lparr>email = ''a@x.com'', password = Some (bcrypt_hash ''secret1'' 7),
              googleAuth = False, createdAt = ''2026-01-01T00:00:00.000Z'', profile = None\<rparr>"
  have h1: "find (\<lambda>u. email u = ''a@x.com'') (readUsers (stored [?u])) = Some ?u"
    by (simp add: readUsers_stored)
  have h2: "''a@x.com'' \<noteq> []" by simp
  have d: "distinct (map email (readUsers (stored [?u])))"
    by (simp add: readUsers_stored)
  have h3: "''other'' \<noteq> []" by simp
  from signup_registered [OF h1 h2, where ?p2.0 = "''other''" and now = "''2026-02-02T00:00:00.000Z''"
      and salt = 8 and now' = "''2026-02-02T00:00:00.000Z''" and salt' = 8
      and em = "Some ''b@x.com''" and pw = "Some ''other''"] h1 h2 h3 d
  show ?thesis by blast
qed

text \<open>
  C7 as it is written fails at the empty password: the registered email is
  refused with 400, for the missing field, not with 409.
\<close>

theorem signup_registered_empty_password_counterexample:
  "find (\<lambda>u. email u = ''a@x.com'') (readUsers (stored [\<lparr>email = ''a@x.com'',
       password = Some (bcrypt_hash ''secret1'' 7), googleAuth = False,
       createdAt = ''2026-01-01T00:00:00.000Z'', profile = None\<rparr>]))
     = Some \<lparr>email = ''a@x.com'', password = Some (bcrypt_hash ''secret1'' 7),
         googleAuth = False, createdAt = ''2026-01-01T00:00:00.000Z'', profile = None\<rparr> \<and>
   fst (signup_handler ''2026-02-02T00:00:00.000Z'' 8 (stored [\<lparr>email = ''a@x.com'',
       password = Some (bcrypt_hash ''secret1'' 7), googleAuth = False,
       createdAt = ''2026-01-01T00:00:00.000Z'', profile = None\<rparr>])
     (Some ''a@x.com'') (Some []))
     = Response 400 (ErrorBody ''Email and password are required.'') \<and>
   status_of (fst (signup_handler ''2026-02-02T00:00:00.000Z'' 8 (stored [\<lparr>email = ''a@x.com'',
       password = Some (bcrypt_hash ''secret1'' 7), googleAuth = False,
       createdAt = ''2026-01-01T00:00:00.000Z'', profile = None\<rparr>])
     (Some ''a@x.com'') (Some []))) \<noteq> Some 409"
  by (simp add: readUsers_stored)

section \<open>Saving the profile\<close>

lemma stamp_eq_iff: "stamp prof t1 = stamp prof t2 \<longleftrightarrow> t1 = t2"
proof
  assume "stamp prof t1 = stamp prof t2"
  then have "stamp prof t1 ''completedAt'' = stamp prof t2 ''completedAt''" by simp
  then show "t1 = t2" by (simp add: stamp_def)
qed simp

text \<open>
  C6, as the code has it. Each save to an existing account answers with the posted
  fields stamped with the clock of the server as read by that save, whatever
  \<^verbatim>\<open>completedAt\<close> the client sent, and stores exactly that object: every other key
  of the stored profile is the posted one, so nothing of the profile before is kept.
  After two saves of the same fields the stored profile is the second result, and the
  two \<^verbatim>\<open>completedAt\<close> values differ exactly when the two clock readings differ.
\<close>

theorem save_twice:
  assumes "e \<noteq> []" and "findIndex (\<lambda>u. Some (email u) = Some e) (readUsers file) = Some i"
  shows "fst (profile_handler t1 file (Some e) prof) = Response 200 (ProfileBody (stamp prof t1)) \<and>
         fst (profile_handler t2 (snd (profile_handler t1 file (Some e) prof)) (Some e) prof)
           = Response 200 (ProfileBody (stamp prof t2)) \<and>
         saved_completedAt (fst (profile_handler t1 file (Some e) prof)) = Some t1 \<and>
         saved_completedAt (fst (profile_handler t2 (snd (profile_handler t1 file (Some e) prof))
           (Some e) prof)) = Some t2 \<and>
         profile (readUsers (snd (profile_handler t1 file (Some e) prof)) ! i)
           = Some (stamp prof t1) \<and>
         profile (readUsers (snd (profile_handler t2 (snd (profile_handler t1 file (Some e) prof))
           (Some e) prof)) ! i) = Some (stamp prof t2) \<and>
         (k \<noteq> ''completedAt'' \<longrightarrow>
            stamp prof t1 k = spread prof k \<and> stamp prof t2 k = spread prof k) \<and>
         (saved_completedAt (fst (profile_handler t1 file (Some e) prof))
            = saved_completedAt (fst (profile_handler t2 (snd (profile_handler t1 file (Some e) prof))
                (Some e) prof))
          \<longleftrightarrow> t1 = t2)"
proof -
  let ?us = "readUsers file"
  let ?us1 = "?us[i := (?us ! i)\<lparr>profile := Some (stamp prof t1)\<rparr>]"
  have i: "i < length ?us"
    using assms(2) findIndex_Some by blast
  have p1: "profile_handler t1 file (Some e) prof
              = (Response 200 (ProfileBody (stamp prof t1)), stored ?us1)"
    by (rule profile_handler_found [OF assms(2) assms(1)])
  have f1: "findIndex (\<lambda>u. Some (email u) = Some e) (readUsers (stored ?us1)) = Some i"
    unfolding readUsers_stored by (rule findIndex_update_same [OF assms(2)])
  have p2: "profile_handler t2 (stored ?us1) (Some e) prof =
     (Response 200 (ProfileBody (stamp prof t2)),
      stored (?us1[i := (?us1 ! i)\<lparr>profile := Some (stamp prof t2)\<rparr>]))"
    using profile_handler_found [OF f1 assms(1)] by (simp add: readUsers_stored)
  have a: "fst (profile_handler t1 file (Some e) prof) = Response 200 (ProfileBody (stamp prof t1))"
    by (simp add: p1)
  have b: "fst (profile_handler t2 (snd (profile_handler t1 file (Some e) prof)) (Some e) prof)
           = Response 200 (ProfileBody (stamp prof t2))"
    by (simp add: p1 p2)
  have c1: "saved_completedAt (fst (profile_handler t1 file (Some e) prof)) = Some t1"
    by (simp add: a stamp_completedAt)
  have c2: "saved_completedAt (fst (profile_handler t2 (snd (profile_handler t1 file (Some e) prof))
           (Some e) prof)) = Some t2"
    by (simp add: b stamp_completedAt)
  have d1: "profile (readUsers (snd (profile_handler t1 file (Some e) prof)) ! i)
           = Some (stamp prof t1)"
    using i by (simp add: p1 readUsers_stored)
  have d2: "profile (readUsers (snd (profile_handler t2 (snd (profile_handler t1 file (Some e) prof))
           (Some e) prof)) ! i) = Some (stamp prof t2)"
    using i by (simp add: p1 p2 readUsers_stored)
  have o: "k \<noteq> ''completedAt'' \<longrightarrow>
             stamp prof t1 k = spread prof k \<and> stamp prof t2 k = spread prof k"
    by (simp add: stamp_other)
  have q: "saved_completedAt (fst (profile_handler t1 file (Some e) prof))
            = saved_completedAt (fst (profile_handler t2 (snd (profile_handler t1 file (Some e) prof))
                (Some e) prof))
          \<longleftrightarrow> t1 = t2"
    by (simp add: c1 c2)
  from a b c1 c2 d1 d2 o q show ?thesis by blast
qed

theorem save_twice_witness:
  "''a@x.com'' \<noteq> [] \<and>
   findIndex (\<lambda>u. Some (email u) = Some ''a@x.com'')
     (readUsers (stored [\<lparr>email = ''a@x.com'', password = Some (bcrypt_hash ''secret1'' 7),
        googleAuth = False, createdAt = ''2026-01-01T00:00:00.000Z'',
        profile = Some [''nick'' \<mapsto> ''old'']\<rparr>])) = Some 0 \<and>
   saved_completedAt (fst (profile_handler ''2026-03-03T00:00:00.000Z''
     (stored [\<lparr>email = ''a@x.com'', password = Some (bcrypt_hash ''secret1'' 7),
        googleAuth = False, createdAt = ''2026-01-01T00:00:00.000Z'',
        profile = Some [''nick'' \<mapsto> ''old'']\<rparr>])
     (Some ''a@x.com'') (Some [''fullName'' \<mapsto> ''A B'', ''completedAt'' \<mapsto> ''1999'']))) =
     Some ''2026-03-03T00:00:00.000Z'' \<and>
   stamp (Some [''fullName'' \<mapsto> ''A B'', ''completedAt'' \<mapsto> ''1999''])
     ''2026-03-04T00:00:00.000Z'' ''nick'' = None"
proof -
  let ?u = "\<lparr>email = ''a@x.com'', password = Some (bcrypt_hash ''secret1'' 7),
        googleAuth = False, createdAt = ''2026-01-01T00:00:00.000Z'',
        profile = Some [''nick'' \<mapsto> ''old'']\<rparr>"
  have h1: "''a@x.com'' \<noteq> []" by simp
  have h2: "findIndex (\<lambda>u. Some (email u) = Some ''a@x.com'') (readUsers (stored [?u])) = Some 0"
    by (simp add: readUsers_stored)
  have n: "''nick'' \<noteq> ''completedAt''" by simp
  have s: "spread (Some [''fullName'' \<mapsto> ''A B'', ''completedAt'' \<mapsto> ''1999'']) ''nick'' = None"
    by simp
  from save_twice [OF h1 h2, where ?t1.0 = "''2026-03-03T00:00:00.000Z''"
      and ?t2.0 = "''2026-03-04T00:00:00.000Z''" and k = "''nick''"
      and prof = "Some [''fullName'' \<mapsto> ''A B'', ''completedAt'' \<mapsto> ''1999'']"] h1 h2 n s
  show ?thesis by metis
qed

text \<open>
  C6 as it is written fails when the two saves read the same clock value
  (\<^verbatim>\<open>toISOString\<close> has the resolution of a millisecond): both results then carry
  the same \<^verbatim>\<open>completedAt\<close>.
\<close>

theorem save_same_instant_counterexample:
  "saved_completedAt (fst (profile_handler ''2026-03-03T00:00:00.000Z''
     (stored [\<lparr>email = ''a@x.com'', password = Some (bcrypt_hash ''secret1'' 7),
        googleAuth = False, createdAt = ''2026-01-01T00:00:00.000Z'', profile = None\<rparr>])
     (Some ''a@x.com'') (Some [''fullName'' \<mapsto> ''A B''])))
     = Some ''2026-03-03T00:00:00.000Z'' \<and>
   saved_completedAt (fst (profile_handler ''2026-03-03T00:00:00.000Z''
     (snd (profile_handler ''2026-03-03T00:00:00.000Z''
       (stored [\<lparr>email = ''a@x.com'', password = Some (bcrypt_hash ''secret1'' 7),
          googleAuth = False, createdAt = ''2026-01-01T00:00:00.000Z'', profile = None\<rparr>])
       (Some ''a@x.com'') (Some [''fullName'' \<mapsto> ''A B''])))
     (Some ''a@x.com'') (Some [''fullName'' \<mapsto> ''A B''])))
     = Some ''2026-03-03T00:00:00.000Z''"
  by (simp add: profile_handler_def readUsers_stored Let_def stamp_def writeUsers_def)

text \<open>
  C8. Whatever the request, a profile save leaves the emails, the credentials, the
  creation times and the Google markers of all accounts as they were, in the same
  order, and leaves every account unchanged but the one it found for the email; of
  that one it sets the profile.
\<close>

theorem profile_frame:
  "map email (readUsers (snd (profile_handler now f e prof))) = map email (readUsers f) \<and>
   map password (readUsers (snd (profile_handler now f e prof))) = map password (readUsers f) \<and>
   map createdAt (readUsers (snd (profile_handler now f e prof))) = map createdAt (readUsers f) \<and>
   map googleAuth (readUsers (snd (profile_handler now f e prof))) = map googleAuth (readUsers f) \<and>
   (findIndex (\<lambda>u. Some (email u) = e) (readUsers f) \<noteq> Some j \<longrightarrow>
      readUsers (snd (profile_handler now f e prof)) ! j = readUsers f ! j) \<and>
   (Some (email (readUsers f ! j)) \<noteq> e \<longrightarrow>
      readUsers (snd (profile_handler now f e prof)) ! j = readUsers f ! j) \<and>
   (\<not> falsy e \<and> findIndex (\<lambda>u. Some (email u) = e) (readUsers f) = Some j \<longrightarrow>
      readUsers (snd (profile_handler now f e prof)) ! j
        = (readUsers f ! j)\<lparr>profile := Some (stamp prof now)\<rparr>)"
proof (cases "findIndex (\<lambda>u. Some (email u) = e) (readUsers f)")
  case None
  then show ?thesis by (simp add: profile_handler_def Let_def)
next
  case (Some i)
  then have i: "i < length (readUsers f)" and ei: "Some (email (readUsers f ! i)) = e"
    using findIndex_Some [OF Some] by auto
  show ?thesis
  proof (cases "falsy e")
    case True
    then show ?thesis by (simp add: profile_handler_def)
  next
    case False
    then have ph: "snd (profile_handler now f e prof) =
        stored ((readUsers f)[i := (readUsers f ! i)\<lparr>profile := Some (stamp prof now)\<rparr>])"
      using Some findIndex_writable [OF Some]
      by (simp add: profile_handler_def Let_def writeUsers_writable)
    show ?thesis
      unfolding ph readUsers_stored using i ei Some
      by (auto simp: map_update list_update_same_conv nth_list_update)
  qed
qed

theorem profile_frame_witness:
  "findIndex (\<lambda>u. Some (email u) = Some ''a@x.com'')
     (readUsers (stored
       [\<lparr>email = ''b@x.com'', password = None, googleAuth = True,
          createdAt = ''2026-01-02T00:00:00.000Z'', profile = Some [''city'' \<mapsto> ''Pune'']\<rparr>,
        \<lparr>email = ''a@x.com'', password = Some (bcrypt_hash ''secret1'' 7), googleAuth = False,
          createdAt = ''2026-01-01T00:00:00.000Z'', profile = None\<rparr>])) \<noteq> Some 0 \<and>
   map password (readUsers (snd (profile_handler ''2026-03-03T00:00:00.000Z''
     (stored
       [\<lparr>email = ''b@x.com'', password = None, googleAuth = True,
          createdAt = ''2026-01-02T00:00:00.000Z'', profile = Some [''city'' \<mapsto> ''Pune'']\<rparr>,
        \<lparr>email = ''a@x.com'', password = Some (bcrypt_hash ''secret1'' 7), googleAuth = False,
          createdAt = ''2026-01-01T00:00:00.000Z'', profile = None\<rparr>])
     (Some ''a@x.com'') (Some [''fullName'' \<mapsto> ''A B'']))))
     = [None, Some (bcrypt_hash ''secret1'' 7)] \<and>
   readUsers (snd (profile_handler ''2026-03-03T00:00:00.000Z''
     (stored
       [\<lparr>email = ''b@x.com'', password = None, googleAuth = True,
          createdAt = ''2026-01-02T00:00:00.000Z'', profile = Some [''city'' \<mapsto> ''Pune'']\<rparr>,
        \<lparr>email = ''a@x.com'', password = Some (bcrypt_hash ''secret1'' 7), googleAuth = False,
          createdAt = ''2026-01-01T00:00:00.000Z'', profile = None\<rparr>])
     (Some ''a@x.com'') (Some [''fullName'' \<mapsto> ''A B'']))) ! 0
     = \<lparr>email = ''b@x.com'', password = None, googleAuth = True,
          createdAt = ''2026-01-02T00:00:00.000Z'', profile = Some [''city'' \<mapsto> ''Pune'']\<rparr>"
proof -
  let ?b = "\<lparr>email = ''b@x.com'', password = None, googleAuth = True,
          createdAt = ''2026-01-02T00:00:00.000Z'', profile = Some [''city'' \<mapsto> ''Pune'']\<rparr>"
  let ?a = "\<lparr>email = ''a@x.com'', password = Some (bcrypt_hash ''secret1'' 7), googleAuth = False,
          createdAt = ''2026-01-01T00:00:00.000Z'', profile = None\<rparr>"
  have h: "findIndex (\<lambda>u. Some (email u) = Some ''a@x.com'') (readUsers (stored [?b, ?a])) \<noteq> Some 0"
    by (simp add: readUsers_stored)
  have r: "readUsers (stored [?b, ?a]) = [?b, ?a]"
    by (rule readUsers_stored)
  from profile_frame [where f = "stored [?b, ?a]" and e = "Some ''a@x.com''" and j = 0
      and now = "''2026-03-03T00:00:00.000Z''" and prof = "Some [''fullName'' \<mapsto> ''A B'']"] h
  show ?thesis unfolding r by simp
qed

section \<open>Listing the accounts\<close>




section \<open>A file that cannot be read\<close>




section \<open>Restoring the session\<close>

text \<open>
  C3, as the code has it. When the saved marker is a non-empty email that has no
  account in the store, restoring does not fail and leaves the client logged in as
  that email with no profile: \<^verbatim>\<open>currentUser\<close> is set from the marker before the
  store is asked, the marker is kept, and the missing account only makes the profile
  \<^verbatim>\<open>null\<close>. The dashboard then redirects to the profile setup page.
\<close>

theorem restore_stale_marker:
  assumes "saved \<noteq> []" and "find (\<lambda>u. email u = saved) (readUsers file) = None"
  shows "restore (Some saved) file
           = \<lparr>wqm_current = Some saved, currentUser = Some saved, userProfile = None, loading = False\<rparr> \<and>
         session_of (restore (Some saved) file) = Authenticated saved None \<and>
         route DashboardPage (restore (Some saved) file) = Redirect SetupPage"
  using assms
  by (simp add: restore_def users_handler_def restoreSession_def initial_client_def
      restore_profile_def find_mask session_of_def ProtectedRoute_def isProfileComplete_def)

theorem restore_stale_marker_witness:
  "''gone@x.com'' \<noteq> [] \<and>
   find (\<lambda>u. email u = ''gone@x.com'') (readUsers (stored [\<lparr>email = ''a@x.com'',
     password = Some (bcrypt_hash ''secret1'' 7), googleAuth = False,
     createdAt = ''2026-01-01T00:00:00.000Z'', profile = None\<rparr>])) = None \<and>
   session_of (restore (Some ''gone@x.com'') (stored [\<lparr>email = ''a@x.com'',
     password = Some (bcrypt_hash ''secret1'' 7), googleAuth = False,
     createdAt = ''2026-01-01T00:00:00.000Z'', profile = None\<rparr>]))
     = Authenticated ''gone@x.com'' None"
proof -
  let ?a = "\<lparr>email = ''a@x.com'', password = Some (bcrypt_hash ''secret1'' 7), googleAuth = False,
     createdAt = ''2026-01-01T00:00:00.000Z'', profile = None\<rparr>"
  have h1: "''gone@x.com'' \<noteq> []" by simp
  have h2: "find (\<lambda>u. email u = ''gone@x.com'') (readUsers (stored [?a])) = None"
    by (simp add: readUsers_stored)
  from restore_stale_marker [OF h1 h2] h1 h2 show ?thesis by blast
qed

text \<open>
  C3 as it is written fails: with the marker naming an email that the store
  does not hold, the restored client is not anonymous.
\<close>

theorem restore_stale_marker_counterexample:
  "find (\<lambda>u. email u = ''gone@x.com'') (readUsers (stored [])) = None \<and>
   currentUser (restore (Some ''gone@x.com'') (stored [])) = Some ''gone@x.com'' \<and>
   session_of (restore (Some ''gone@x.com'') (stored [])) \<noteq> Anonymous"
  by (simp add: restore_def users_handler_def restoreSession_def initial_client_def
      restore_profile_def session_of_def readUsers_stored)

section \<open>Google sign-in, then a password login\<close>

text \<open>
  A token that verifies to an email with no account makes the handler append an
  account with a \<^verbatim>\<open>null\<close> password and no profile. A password login on that email
  then finds the account, so it does not answer 404; with a non-empty password it
  hands the \<^verbatim>\<open>null\<close> to \<^verbatim>\<open>bcrypt.compare\<close>, whose promise rejects, and the handler
  has no \<^verbatim>\<open>try\<close> around it: no response is sent, and so no 401.
\<close>

lemma google_auth_new_email:
  assumes "tok \<noteq> []" and "verifyIdToken tok = Some pl"
    and "find (\<lambda>u. email u = payload_email pl) (readUsers file) = None"
    and "writable file"
  shows "snd (google_auth_handler verifyIdToken now file (Some tok))
           = stored (readUsers file @ [\<lparr>email = payload_email pl, password = None,
               googleAuth = True, createdAt = now, profile = None\<rparr>])"
  using assms by (simp add: google_auth_handler_def Let_def writeUsers_writable)

lemma login_on_google_account:
  assumes "e \<noteq> []" and "pw \<noteq> []" and "find (\<lambda>u. email u = e) (readUsers file) = Some u"
    and "password u = None"
  shows "login_handler file (Some e) (Some pw) = Unhandled ''Illegal arguments: string, object''"
  using assms by simp

text \<open>
  C2, at one input. The token verifies to \<^verbatim>\<open>g@x.com\<close>, which the empty store does
  not hold: the account is made with a \<^verbatim>\<open>null\<close> password and no profile, and the
  login with the password \<^verbatim>\<open>secret1\<close> that follows sends no response at all, where
  the claim has it answer 401.
\<close>

theorem google_account_login_unhandled:
  "google_auth_handler (\<lambda>tok. Some \<lparr>payload_email = ''g@x.com'', payload_name = Some ''G''\<rparr>)
       ''2026-01-01T00:00:00.000Z'' (stored []) (Some ''token'')
     = (Response 200 (GoogleBody ''g@x.com'' ''G'' None),
        stored [\<lparr>email = ''g@x.com'', password = None, googleAuth = True,
                      createdAt = ''2026-01-01T00:00:00.000Z'', profile = None\<rparr>]) \<and>
   login_handler (stored [\<lparr>email = ''g@x.com'', password = None, googleAuth = True,
                      createdAt = ''2026-01-01T00:00:00.000Z'', profile = None\<rparr>])
       (Some ''g@x.com'') (Some ''secret1'') = Unhandled ''Illegal arguments: string, object'' \<and>
   status_of (login_handler (stored [\<lparr>email = ''g@x.com'', password = None, googleAuth = True,
                      createdAt = ''2026-01-01T00:00:00.000Z'', profile = None\<rparr>])
       (Some ''g@x.com'') (Some ''secret1'')) \<noteq> Some 401"
  by (simp add: google_auth_handler_def readUsers_stored Let_def writeUsers_def)

end
